theory Spec2Isabelle
  imports Complex_Main
begin

section \<open>Python values, exceptions and the primitive operations the client uses\<close>

text \<open>
  The client (\<open>frontend.py\<close>) walks untyped, nested event records that the agent runtime
  streams back. The values it meets are the ones a parsed service response or a parsed JSON
  text can hold. A Python \<open>str\<close> is represented by its UTF-8 encoding, one \<open>char\<close> per
  byte, so that the keys of the event contract are ordinary string literals; \<open>bytes\<close> are
  a list of \<open>char\<close> as well. A \<open>dict\<close> is an association list with string keys, looked
  up with \<open>map_of\<close>.
\<close>

datatype pyfloat = Finite rat | Infinite bool | NaN

datatype pyval =
    PNone
  | PBool bool
  | PInt int
  | PFloat pyfloat
  | PStr string
  | PBytes string
  | PList "pyval list"
  | PDict "(string \<times> pyval) list"

text \<open>
  The exceptions that can travel through \<open>main\<close>. \<open>EventStreamError\<close> and \<open>ClientError\<close>
  are the two botocore classes named by the \<open>except\<close> clause of \<open>main\<close>; the string
  they carry is \<open>str(e)\<close>. \<open>OtherError\<close> stands for an exception of any other class,
  again with its \<open>str(e)\<close>. The remaining constructors are the built-in exceptions that
  the code itself can provoke.
\<close>

datatype exn =
    EventStreamError string
  | ClientError string
  | KeyError string
  | IndexError
  | TypeError
  | AttributeError
  | UnicodeDecodeError
  | UnboundLocalError
  | OtherError string

definition bind_exn :: "exn + 'a \<Rightarrow> ('a \<Rightarrow> exn + 'b) \<Rightarrow> exn + 'b" where
  "bind_exn r f = (case r of Inl e \<Rightarrow> Inl e | Inr v \<Rightarrow> f v)"

text \<open>\<open>tok in s\<close> on two strings: \<open>tok\<close> occurs in \<open>s\<close> as a contiguous run.\<close>

fun is_substring :: "string \<Rightarrow> string \<Rightarrow> bool" where
  "is_substring tok [] = (tok = [])"
| "is_substring tok (c # cs) = (take (length tok) (c # cs) = tok \<or> is_substring tok cs)"

text \<open>\<open>v[k]\<close> with a string key: only a dict accepts it, and a missing key raises.\<close>

definition subscript :: "pyval \<Rightarrow> string \<Rightarrow> exn + pyval" where
  "subscript v k =
     (case v of
        PDict kvs \<Rightarrow> (case map_of kvs k of Some x \<Rightarrow> Inr x | None \<Rightarrow> Inl (KeyError k))
      | _ \<Rightarrow> Inl TypeError)"

text \<open>The number of bytes of the code point that starts with the given byte.\<close>

definition utf8_width :: "nat \<Rightarrow> nat" where
  "utf8_width b =
     (if 194 \<le> b \<and> b \<le> 223 then 2
      else if 224 \<le> b \<and> b \<le> 239 then 3
      else if 240 \<le> b \<and> b \<le> 244 then 4
      else 1)"

text \<open>
  \<open>v[0]\<close>: the first element of a sequence. The dicts of the model have string keys
  only, so \<open>0\<close> is never a key of one; the \<open>KeyError\<close> carries the key as text.
\<close>

definition index0 :: "pyval \<Rightarrow> exn + pyval" where
  "index0 v =
     (case v of
        PList xs \<Rightarrow> (case xs of [] \<Rightarrow> Inl IndexError | x # _ \<Rightarrow> Inr x)
      | PStr s \<Rightarrow>
          (case s of [] \<Rightarrow> Inl IndexError
           | c # _ \<Rightarrow> Inr (PStr (take (utf8_width (of_char c)) s)))
      | PBytes s \<Rightarrow> (case s of [] \<Rightarrow> Inl IndexError | c # _ \<Rightarrow> Inr (PInt (of_char c)))
      | PDict kvs \<Rightarrow> Inl (KeyError ''0'')
      | _ \<Rightarrow> Inl TypeError)"

text \<open>\<open>k in v\<close> with a string \<open>k\<close>.\<close>

definition contains :: "pyval \<Rightarrow> string \<Rightarrow> exn + bool" where
  "contains v k =
     (case v of
        PDict kvs \<Rightarrow> Inr (map_of kvs k \<noteq> None)
      | PList xs \<Rightarrow> Inr (List.member xs (PStr k))
      | PStr s \<Rightarrow> Inr (is_substring k s)
      | _ \<Rightarrow> Inl TypeError)"

text \<open>\<open>v.get(k, d)\<close>: a method of dicts only.\<close>

definition get :: "pyval \<Rightarrow> string \<Rightarrow> pyval \<Rightarrow> exn + pyval" where
  "get v k d =
     (case v of
        PDict kvs \<Rightarrow> Inr (case map_of kvs k of Some x \<Rightarrow> x | None \<Rightarrow> d)
      | _ \<Rightarrow> Inl AttributeError)"

text \<open>The truth value Python gives a value in \<open>if v:\<close>.\<close>

fun truthy :: "pyval \<Rightarrow> bool" where
  "truthy PNone = False"
| "truthy (PBool b) = b"
| "truthy (PInt i) = (i \<noteq> 0)"
| "truthy (PFloat f) = (f \<noteq> Finite 0)"
| "truthy (PStr s) = (s \<noteq> [])"
| "truthy (PBytes s) = (s \<noteq> [])"
| "truthy (PList xs) = (xs \<noteq> [])"
| "truthy (PDict kvs) = (kvs \<noteq> [])"

text \<open>
  Strict UTF-8, as \<open>bytes.decode()\<close> checks it: no overlong forms, no surrogates, nothing
  above U+10FFFF.
\<close>

definition utf8_cont :: "nat \<Rightarrow> bool" where
  "utf8_cont b = (128 \<le> b \<and> b \<le> 191)"

fun utf8_valid :: "nat list \<Rightarrow> bool" where
  "utf8_valid [] = True"
| "utf8_valid (b # bs) =
     (if b < 128 then utf8_valid bs
      else if 194 \<le> b \<and> b \<le> 223 then
        (case bs of c1 # r \<Rightarrow> utf8_cont c1 \<and> utf8_valid r | _ \<Rightarrow> False)
      else if 224 \<le> b \<and> b \<le> 239 then
        (case bs of
           c1 # c2 # r \<Rightarrow>
             utf8_cont c1 \<and> utf8_cont c2 \<and> (b = 224 \<longrightarrow> 160 \<le> c1) \<and> (b = 237 \<longrightarrow> c1 \<le> 159)
             \<and> utf8_valid r
         | _ \<Rightarrow> False)
      else if 240 \<le> b \<and> b \<le> 244 then
        (case bs of
           c1 # c2 # c3 # r \<Rightarrow>
             utf8_cont c1 \<and> utf8_cont c2 \<and> utf8_cont c3
             \<and> (b = 240 \<longrightarrow> 144 \<le> c1) \<and> (b = 244 \<longrightarrow> c1 \<le> 143) \<and> utf8_valid r
         | _ \<Rightarrow> False)
      else False)"

text \<open>\<open>v.decode()\<close>: a method of \<open>bytes\<close>; the text is the same byte sequence.\<close>

definition decode :: "pyval \<Rightarrow> exn + string" where
  "decode v =
     (case v of
        PBytes bs \<Rightarrow> (if utf8_valid (map of_char bs) then Inr bs else Inl UnicodeDecodeError)
      | _ \<Rightarrow> Inl AttributeError)"

section \<open>What the client shows\<close>

text \<open>
  The Streamlit calls are the client's output. Each call is recorded as one element of the
  screen; a \<open>with\<close> block (\<open>st.expander\<close>, \<open>st.chat_message\<close>) holds what was written
  inside it. The fixed Japanese captions of the source are constructors: a title names the
  \<open>st.expander\<close> caption of that branch (the two collaborator captions are f-strings and
  carry the interpolated name), a notice names an \<open>st.info\<close> text and a popup an
  \<open>st.error\<close> text. The prints to the terminal are left out: they show nothing on the
  screen, touch no state and raise nothing.
\<close>

datatype title =
    Thinking
  | ThoughtComplete
  | NextActionDecided
  | CallingSubAgent pyval
  | SearchingKnowledgeBase
  | RunningLambda
  | KnowledgeBaseSearched
  | SubAgentAnswered pyval

datatype notice = NoDocumentsFound | NoTextOutput

datatype popup = DependencyFailedMessage | ThrottlingMessage

datatype ui =
    St_title
  | St_text
  | St_chat_message string "ui list"
  | St_markdown pyval
  | St_expander title bool "ui list"
  | St_json pyval
  | St_write pyval
  | St_info notice
  | St_error popup

text \<open>
  A piece of code that writes to the screen and may raise: what it has shown so far,
  and the exception if one escaped.
\<close>

type_synonym shown = "ui list \<times> exn option"

definition nothing :: shown where
  "nothing = ([], None)"

definition emit :: "ui \<Rightarrow> shown" where
  "emit u = ([u], None)"

definition try_get :: "exn + 'a \<Rightarrow> ('a \<Rightarrow> shown) \<Rightarrow> shown" where
  "try_get r f = (case r of Inl e \<Rightarrow> ([], Some e) | Inr v \<Rightarrow> f v)"

definition and_then :: "shown \<Rightarrow> shown \<Rightarrow> shown" where
  "and_then a b = (case snd a of Some e \<Rightarrow> a | None \<Rightarrow> (fst a @ fst b, snd b))"

definition expander :: "title \<Rightarrow> bool \<Rightarrow> shown \<Rightarrow> shown" where
  "expander t expanded body = ([St_expander t expanded (fst body)], snd body)"

text \<open>The default collaborator name of line 59, in UTF-8.\<close>

definition unknown_agent :: pyval where
  "unknown_agent =
     PStr (map char_of
       [228, 184, 141, 230, 152, 142, 227, 129, 170, 227, 130, 168, 227, 131, 188,
        227, 130, 184, 227, 130, 167, 227, 131, 179, 227, 131, 136 :: nat])"

section \<open>Rendering one trace event\<close>

text \<open>
  \<open>json.loads\<close> is library code; it is a parameter of the model, a function from the
  value it is given to the parsed value or the exception it raises.
\<close>

type_synonym loads = "pyval \<Rightarrow> exn + pyval"

definition display_observation_details :: "pyval \<Rightarrow> shown" where
  "display_observation_details observation =
     try_get (get observation ''type'' PNone) (\<lambda>obs_type.
       if obs_type = PStr ''KNOWLEDGE_BASE'' then
         expander KnowledgeBaseSearched False
           (try_get (get observation ''knowledgeBaseLookupOutput'' (PDict [])) (\<lambda>kb_output.
            try_get (get kb_output ''retrievedReferences'' (PList [])) (\<lambda>references.
              if truthy references then emit (St_json references)
              else emit (St_info NoDocumentsFound))))
       else if obs_type = PStr ''AGENT_COLLABORATOR'' then
         try_get (get observation ''agentCollaboratorInvocationOutput'' (PDict [])) (\<lambda>ac_output.
         try_get (get ac_output ''agentCollaboratorName'' unknown_agent) (\<lambda>agent_name.
           expander (SubAgentAnswered agent_name) True
             (try_get (bind_exn (get ac_output ''output'' (PDict [])) (\<lambda>out. get out ''text'' PNone))
                (\<lambda>output_text.
                  if truthy output_text then emit (St_markdown output_text)
                  else emit (St_info NoTextOutput)))))
       else nothing)"

text \<open>Lines 77 to 89: the model input.\<close>

definition trace_model_input :: "loads \<Rightarrow> pyval \<Rightarrow> shown" where
  "trace_model_input json_loads trace =
     try_get (contains trace ''modelInvocationInput'') (\<lambda>present.
       if present then
         expander Thinking False
           (try_get (bind_exn (subscript trace ''modelInvocationInput'') (\<lambda>m. subscript m ''text''))
              (\<lambda>input_trace.
                case json_loads input_trace of
                  Inr parsed \<Rightarrow> emit (St_json parsed)
                | Inl _ \<Rightarrow> emit (St_write input_trace)))
       else nothing)"

text \<open>Lines 92 to 102: the model output. Both \<open>json.loads\<close> calls stand inside the \<open>try\<close>.\<close>

definition first_content :: "loads \<Rightarrow> pyval \<Rightarrow> exn + pyval" where
  "first_content json_loads output_trace =
     bind_exn (bind_exn (json_loads output_trace) (\<lambda>j. subscript j ''content'')) index0"

definition trace_model_output :: "loads \<Rightarrow> pyval \<Rightarrow> shown" where
  "trace_model_output json_loads trace =
     try_get (contains trace ''modelInvocationOutput'') (\<lambda>present.
       if present then
         try_get
           (bind_exn (bind_exn (subscript trace ''modelInvocationOutput'')
              (\<lambda>m. subscript m ''rawResponse'')) (\<lambda>r. subscript r ''content''))
           (\<lambda>output_trace.
             expander ThoughtComplete False
               (case bind_exn (first_content json_loads output_trace) (\<lambda>el. subscript el ''text'') of
                  Inl _ \<Rightarrow> emit (St_write output_trace)
                | Inr thinking \<Rightarrow>
                    if truthy thinking then emit (St_write thinking)
                    else (case first_content json_loads output_trace of
                            Inl _ \<Rightarrow> emit (St_write output_trace)
                          | Inr el \<Rightarrow> emit (St_write el))))
       else nothing)"

text \<open>Lines 105 to 107: the rationale.\<close>

definition trace_rationale :: "pyval \<Rightarrow> shown" where
  "trace_rationale trace =
     try_get (contains trace ''rationale'') (\<lambda>present.
       if present then
         expander NextActionDecided True
           (try_get (bind_exn (subscript trace ''rationale'') (\<lambda>r. subscript r ''text''))
              (\<lambda>t. emit (St_write t)))
       else nothing)"

text \<open>Lines 110 to 124: the tool invocation, dispatched on \<open>invocationType\<close>.\<close>

definition trace_invocation_input :: "pyval \<Rightarrow> shown" where
  "trace_invocation_input trace =
     try_get (contains trace ''invocationInput'') (\<lambda>present.
       if present then
         try_get (bind_exn (subscript trace ''invocationInput'') (\<lambda>i. subscript i ''invocationType''))
           (\<lambda>invocation_type.
             if invocation_type = PStr ''AGENT_COLLABORATOR'' then
               try_get
                 (bind_exn (bind_exn (subscript trace ''invocationInput'')
                    (\<lambda>i. subscript i ''agentCollaboratorInvocationInput''))
                    (\<lambda>a. subscript a ''agentCollaboratorName''))
                 (\<lambda>agent_name.
                   expander (CallingSubAgent agent_name) True
                     (try_get
                        (bind_exn (bind_exn (bind_exn (subscript trace ''invocationInput'')
                           (\<lambda>i. subscript i ''agentCollaboratorInvocationInput''))
                           (\<lambda>a. subscript a ''input'')) (\<lambda>inp. subscript inp ''text''))
                        (\<lambda>t. emit (St_write t))))
             else if invocation_type = PStr ''KNOWLEDGE_BASE'' then
               expander SearchingKnowledgeBase False
                 (try_get
                    (bind_exn (bind_exn (subscript trace ''invocationInput'')
                       (\<lambda>i. subscript i ''knowledgeBaseLookupInput'')) (\<lambda>k. subscript k ''text''))
                    (\<lambda>t. emit (St_write t)))
             else if invocation_type = PStr ''ACTION_GROUP'' then
               expander RunningLambda False
                 (try_get
                    (bind_exn (subscript trace ''invocationInput'')
                       (\<lambda>i. subscript i ''actionGroupInvocationInput''))
                    (\<lambda>a. emit (St_write a)))
             else nothing)
       else nothing)"

text \<open>Lines 127 to 130: the observation.\<close>

definition trace_observation :: "pyval \<Rightarrow> shown" where
  "trace_observation trace =
     try_get (contains trace ''observation'') (\<lambda>present.
       if present then
         try_get (subscript trace ''observation'') display_observation_details
       else nothing)"

definition handle_trace_event :: "loads \<Rightarrow> pyval \<Rightarrow> shown" where
  "handle_trace_event json_loads event =
     try_get (bind_exn (subscript event ''trace'') (\<lambda>t. subscript t ''trace'')) (\<lambda>inner.
     try_get (contains inner ''orchestrationTrace'') (\<lambda>present.
       if \<not> present then nothing
       else
         try_get (subscript inner ''orchestrationTrace'') (\<lambda>trace.
           and_then (trace_model_input json_loads trace)
          (and_then (trace_model_output json_loads trace)
          (and_then (trace_rationale trace)
          (and_then (trace_invocation_input trace)
                    (trace_observation trace)))))))"

section \<open>The session, the response stream and \<open>main\<close>\<close>

text \<open>
  One transcript entry is the dict \<open>{"role": ..., "text": ...}\<close> that the code appends to
  \<open>messages\<close>.
\<close>

record entry =
  role :: string
  mtext :: string

text \<open>
  The arguments of \<open>client.invoke_agent\<close>, and what it gives back: the events that the
  \<open>completion\<close> stream yields, in order, and the exception the stream raises after them
  if it breaks off. The client itself is the transport, a parameter of the model.
\<close>

record request =
  agentId :: "string option"
  agentAliasId :: "string option"
  sessionId :: string
  enableTrace :: bool
  inputText :: string

record response =
  completion :: "pyval list"
  stream_error :: "exn option"

type_synonym client = "request \<Rightarrow> exn + response"

text \<open>
  What the program takes from outside: \<open>json.loads\<close>, the environment after
  \<open>load_dotenv\<close>, the client \<open>boto3.client\<close> builds and the identifier \<open>uuid4\<close> draws.
\<close>

record env =
  json_loads :: loads
  getenv :: "string \<Rightarrow> string option"
  boto3_client :: client
  uuid4 :: string

text \<open>\<open>st.session_state\<close>: each of the four attributes is there or not yet.\<close>

record session_state =
  client :: "client option"
  session_id :: "string option"
  messages :: "entry list option"
  last_prompt :: "string option option"

definition initialize_session ::
    "env \<Rightarrow> session_state \<Rightarrow> session_state \<times> client \<times> string \<times> entry list" where
  "initialize_session w st =
     (let c = (case client st of None \<Rightarrow> boto3_client w | Some c \<Rightarrow> c);
          sid = (case session_id st of None \<Rightarrow> uuid4 w | Some i \<Rightarrow> i);
          ms = (case messages st of None \<Rightarrow> [] | Some m \<Rightarrow> m);
          lp = (case last_prompt st of None \<Rightarrow> None | Some p \<Rightarrow> p)
      in (\<lparr>client = Some c, session_id = Some sid, messages = Some ms, last_prompt = Some lp\<rparr>,
          c, sid, ms))"

definition display_chat_history :: "entry list \<Rightarrow> ui list" where
  "display_chat_history ms =
     [St_title, St_text] @ map (\<lambda>m. St_chat_message (role m) [St_markdown (PStr (mtext m))]) ms"

definition build_request :: "env \<Rightarrow> string \<Rightarrow> string \<Rightarrow> request" where
  "build_request w sid prompt =
     \<lparr>agentId = getenv w ''AGENT_ID'', agentAliasId = getenv w ''AGENT_ALIAS_ID'',
      sessionId = sid, enableTrace = True, inputText = prompt\<rparr>"

definition invoke_bedrock_agent :: "env \<Rightarrow> client \<Rightarrow> string \<Rightarrow> string \<Rightarrow> exn + response" where
  "invoke_bedrock_agent w c sid prompt = c (build_request w sid prompt)"

text \<open>Line 152: \<open>event["chunk"]["bytes"].decode()\<close>.\<close>

definition chunk_text :: "pyval \<Rightarrow> exn + string" where
  "chunk_text event =
     bind_exn (bind_exn (subscript event ''chunk'') (\<lambda>c. subscript c ''bytes'')) decode"

text \<open>
  The body of the loop of \<open>handle_agent_response\<close> (lines 147 to 154): two separate
  \<open>if\<close> statements, the trace first. It returns the transcript, which only a chunk
  extends, what was shown, and the exception if one escaped.
\<close>

definition handle_event :: "loads \<Rightarrow> pyval \<Rightarrow> entry list \<Rightarrow> entry list \<times> shown" where
  "handle_event jl event ms =
     (case contains event ''trace'' of
        Inl e \<Rightarrow> (ms, [], Some e)
      | Inr has_trace \<Rightarrow>
          (let traced = (if has_trace then handle_trace_event jl event else nothing) in
           case snd traced of
             Some e \<Rightarrow> (ms, traced)
           | None \<Rightarrow>
               (case contains event ''chunk'' of
                  Inl e \<Rightarrow> (ms, fst traced, Some e)
                | Inr has_chunk \<Rightarrow>
                    if has_chunk then
                      (case chunk_text event of
                         Inl e \<Rightarrow> (ms, fst traced, Some e)
                       | Inr answer \<Rightarrow>
                           (ms @ [\<lparr>role = ''assistant'', mtext = answer\<rparr>],
                            fst traced @ [St_write (PStr answer)], None))
                    else (ms, traced))))"

text \<open>
  The loop itself: the events in stream order, then the exception with which the stream
  breaks off, if it does. An exception from the loop body ends the loop at once.
\<close>

fun handle_events :: "loads \<Rightarrow> pyval list \<Rightarrow> exn option \<Rightarrow> entry list \<Rightarrow> entry list \<times> shown" where
  "handle_events jl [] ending ms = (ms, [], ending)"
| "handle_events jl (event # events) ending ms =
     (case handle_event jl event ms of
        (ms1, shown1, Some e) \<Rightarrow> (ms1, shown1, Some e)
      | (ms1, shown1, None) \<Rightarrow>
          (case handle_events jl events ending ms1 of
             (ms2, shown2, r) \<Rightarrow> (ms2, shown1 @ shown2, r)))"

definition handle_agent_response :: "loads \<Rightarrow> response \<Rightarrow> entry list \<Rightarrow> entry list \<times> shown" where
  "handle_agent_response jl resp ms =
     (case handle_events jl (completion resp) (stream_error resp) ms of
        (ms1, shown1, r) \<Rightarrow> (ms1, [St_chat_message ''assistant'' shown1], r))"

definition show_error_popup :: "string \<Rightarrow> shown" where
  "show_error_popup exeption =
     (if exeption = ''dependencyFailedException'' then emit (St_error DependencyFailedMessage)
      else if exeption = ''throttlingException'' then emit (St_error ThrottlingMessage)
      else ([], Some UnboundLocalError))"

text \<open>
  The \<open>except (EventStreamError, ClientError)\<close> clause of \<open>main\<close>: an exception of
  another class passes through untouched.
\<close>

definition except_clause :: "exn \<Rightarrow> shown" where
  "except_clause e =
     (let handler = (\<lambda>str_e.
            if is_substring ''dependencyFailedException'' str_e
              then show_error_popup ''dependencyFailedException''
            else if is_substring ''throttlingException'' str_e
              then show_error_popup ''throttlingException''
            else ([], Some e))
      in case e of
           EventStreamError str_e \<Rightarrow> handler str_e
         | ClientError str_e \<Rightarrow> handler str_e
         | _ \<Rightarrow> ([], Some e))"

text \<open>
  The body of the \<open>try\<close> statement of \<open>main\<close> (lines 178 to 182): the invocation,
  then the consumption of the stream it returned.
\<close>

definition try_block :: "env \<Rightarrow> client \<Rightarrow> string \<Rightarrow> string \<Rightarrow> entry list \<Rightarrow> entry list \<times> shown" where
  "try_block w c sid prompt ms1 =
     (case invoke_bedrock_agent w c sid prompt of
        Inl e \<Rightarrow> (ms1, [], Some e)
      | Inr resp \<Rightarrow> handle_agent_response (json_loads w) resp ms1)"

text \<open>
  One run of \<open>main\<close>: the session state afterwards, the screen, the requests sent to the
  agent and the exception that left \<open>main\<close>, if any. \<open>chat_input\<close> is what
  \<open>st.chat_input\<close> returned: \<open>None\<close>, or the text the user sent.
\<close>

record outcome =
  state :: session_state
  screen :: "ui list"
  invoked :: "request list"
  raised :: "exn option"

definition main :: "env \<Rightarrow> session_state \<Rightarrow> string option \<Rightarrow> outcome" where
  "main w st chat_input =
     (case initialize_session w st of
        (st1, c, sid, ms) \<Rightarrow>
          (let history = display_chat_history ms in
           case chat_input of
             None \<Rightarrow> \<lparr>state = st1, screen = history, invoked = [], raised = None\<rparr>
           | Some prompt \<Rightarrow>
               if prompt = [] then \<lparr>state = st1, screen = history, invoked = [], raised = None\<rparr>
               else
                 (let ms1 = ms @ [\<lparr>role = ''human'', mtext = prompt\<rparr>];
                      bubble = St_chat_message ''user'' [St_markdown (PStr prompt)];
                      tried = try_block w c sid prompt ms1;
                      handled =
                        (case snd (snd tried) of
                           None \<Rightarrow> nothing
                         | Some e \<Rightarrow> except_clause e)
                  in \<lparr>state = st1\<lparr>messages := Some (fst tried)\<rparr>,
                      screen = history @ [bubble] @ fst (snd tried) @ fst handled,
                      invoked = [build_request w sid prompt],
                      raised = snd handled\<rparr>)))"

section \<open>Notions of the specification\<close>

text \<open>
  The specification speaks of the kind of a rendered unit. In the code the kind is the
  branch that opened the expander, which its caption identifies.
\<close>

datatype trace_kind = ModelInput | ModelOutput | Rationale | ToolInvocation | Observation

fun title_kind :: "title \<Rightarrow> trace_kind" where
  "title_kind Thinking = ModelInput"
| "title_kind ThoughtComplete = ModelOutput"
| "title_kind NextActionDecided = Rationale"
| "title_kind (CallingSubAgent n) = ToolInvocation"
| "title_kind SearchingKnowledgeBase = ToolInvocation"
| "title_kind RunningLambda = ToolInvocation"
| "title_kind KnowledgeBaseSearched = Observation"
| "title_kind (SubAgentAnswered n) = Observation"

fun unit_kind :: "ui \<Rightarrow> trace_kind option" where
  "unit_kind (St_expander t expanded body) = Some (title_kind t)"
| "unit_kind u = None"

text \<open>The orchestration trace of an event, as line 74 reads it.\<close>

definition orchestration_trace :: "pyval \<Rightarrow> exn + pyval" where
  "orchestration_trace event =
     bind_exn (bind_exn (subscript event ''trace'') (\<lambda>t. subscript t ''trace''))
       (\<lambda>inner. subscript inner ''orchestrationTrace'')"

text \<open>The orchestration sub-fields that are present, in the order the code visits them.\<close>

definition present_subfields :: "(string \<times> pyval) list \<Rightarrow> string list" where
  "present_subfields kvs =
     filter (\<lambda>k. map_of kvs k \<noteq> None)
       [''modelInvocationInput'', ''modelInvocationOutput'', ''rationale'',
        ''invocationInput'', ''observation'']"

text \<open>
  The sub-fields that the code turns into a unit: the first three whenever present, the
  tool invocation and the observation only under a type that the code dispatches on.
\<close>

definition known_invocation :: "(string \<times> pyval) list \<Rightarrow> bool" where
  "known_invocation kvs =
     (case map_of kvs ''invocationInput'' of
        None \<Rightarrow> False
      | Some i \<Rightarrow>
          subscript i ''invocationType'' = Inr (PStr ''AGENT_COLLABORATOR'')
          \<or> subscript i ''invocationType'' = Inr (PStr ''KNOWLEDGE_BASE'')
          \<or> subscript i ''invocationType'' = Inr (PStr ''ACTION_GROUP''))"

definition known_observation :: "(string \<times> pyval) list \<Rightarrow> bool" where
  "known_observation kvs =
     (case map_of kvs ''observation'' of
        None \<Rightarrow> False
      | Some ob \<Rightarrow>
          get ob ''type'' PNone = Inr (PStr ''KNOWLEDGE_BASE'')
          \<or> get ob ''type'' PNone = Inr (PStr ''AGENT_COLLABORATOR''))"

definition rendered_kinds :: "(string \<times> pyval) list \<Rightarrow> trace_kind list" where
  "rendered_kinds kvs =
     (if map_of kvs ''modelInvocationInput'' \<noteq> None then [ModelInput] else [])
     @ (if map_of kvs ''modelInvocationOutput'' \<noteq> None then [ModelOutput] else [])
     @ (if map_of kvs ''rationale'' \<noteq> None then [Rationale] else [])
     @ (if known_invocation kvs then [ToolInvocation] else [])
     @ (if known_observation kvs then [Observation] else [])"

text \<open>The events of a stream that carry a chunk, and the answer each one decodes to.\<close>

definition has_chunk :: "pyval \<Rightarrow> bool" where
  "has_chunk event = (contains event ''chunk'' = Inr True)"

definition answer_of :: "pyval \<Rightarrow> string option" where
  "answer_of event =
     (if has_chunk event then
        (case chunk_text event of
           Inl e \<Rightarrow> None
         | Inr answer \<Rightarrow> Some answer)
      else None)"

definition answers :: "pyval list \<Rightarrow> string list" where
  "answers events = List.map_filter answer_of events"

text \<open>
  Whether handling one event raises, and with what: the transcript plays no part in it. The
  events of a stream that the loop handles completely are those before the first one that
  raises; the loop ends with the exception of that event, or else the way the stream ends.
\<close>

definition event_error :: "loads \<Rightarrow> pyval \<Rightarrow> exn option" where
  "event_error jl event = snd (snd (handle_event jl event []))"

definition handled :: "loads \<Rightarrow> pyval list \<Rightarrow> pyval list" where
  "handled jl events = takeWhile (\<lambda>ev. event_error jl ev = None) events"

definition stream_outcome :: "loads \<Rightarrow> pyval list \<Rightarrow> exn option \<Rightarrow> exn option" where
  "stream_outcome jl events ending =
     (case dropWhile (\<lambda>ev. event_error jl ev = None) events of
        [] \<Rightarrow> ending
      | ev # rest \<Rightarrow> event_error jl ev)"

definition assistant :: "string \<Rightarrow> entry" where
  "assistant answer = \<lparr>role = ''assistant'', mtext = answer\<rparr>"

definition is_transport :: "exn \<Rightarrow> bool" where
  "is_transport e = (case e of EventStreamError s \<Rightarrow> True | ClientError s \<Rightarrow> True | _ \<Rightarrow> False)"

definition initialised :: "session_state \<Rightarrow> bool" where
  "initialised st =
     (client st \<noteq> None \<and> session_id st \<noteq> None \<and> messages st \<noteq> None \<and> last_prompt st \<noteq> None)"

section \<open>Sample inputs\<close>

text \<open>
  Concrete events, parsers, clients and sessions on which the theorems below are run.
  \<open>sample_loads\<close> parses the two JSON texts it knows and rejects everything else, as
  \<open>json.loads\<close> rejects a text that is not JSON.
\<close>

definition sample_loads :: loads where
  \<open>sample_loads v =
     (if v = PStr ''{"content": [{"text": "done"}]}''
        then Inr (PDict [(''content'', PList [PDict [(''text'', PStr ''done'')]])])
      else if v = PStr ''{"content": [{"text": ""}]}''
        then Inr (PDict [(''content'', PList [PDict [(''text'', PStr [])]])])
      else Inl (OtherError ''JSONDecodeError''))\<close>

definition orchestration_event :: "(string \<times> pyval) list \<Rightarrow> pyval" where
  "orchestration_event kvs =
     PDict [(''trace'', PDict [(''trace'', PDict [(''orchestrationTrace'', PDict kvs)])])]"

definition chunk_event :: "string \<Rightarrow> pyval" where
  "chunk_event bs = PDict [(''chunk'', PDict [(''bytes'', PBytes bs)])]"

definition model_output_field :: "pyval \<Rightarrow> string \<times> pyval" where
  "model_output_field payload =
     (''modelInvocationOutput'', PDict [(''rawResponse'', PDict [(''content'', payload)])])"

definition rationale_field :: "string \<times> pyval" where
  "rationale_field = (''rationale'', PDict [(''text'', PStr ''Use tool X'')])"

definition invocation_field :: "(string \<times> pyval) list \<Rightarrow> string \<times> pyval" where
  "invocation_field kvs = (''invocationInput'', PDict kvs)"

definition both_event :: pyval where
  "both_event =
     PDict [(''chunk'', PDict [(''bytes'', PBytes ''Hello'')]),
            (''trace'', PDict [(''trace'', PDict [(''orchestrationTrace'', PDict [rationale_field])])])]"

definition observation_field :: "(string \<times> pyval) list \<Rightarrow> string \<times> pyval" where
  "observation_field kvs = (''observation'', PDict kvs)"

definition failing_client :: "exn \<Rightarrow> client" where
  "failing_client e req = Inl e"

definition replying_client :: "pyval list \<Rightarrow> client" where
  "replying_client events req = Inr \<lparr>completion = events, stream_error = None\<rparr>"

definition breaking_client :: "pyval list \<Rightarrow> exn \<Rightarrow> client" where
  "breaking_client events e req = Inr \<lparr>completion = events, stream_error = Some e\<rparr>"

definition no_getenv :: "string \<Rightarrow> string option" where
  "no_getenv name = None"

definition sample_env :: "client \<Rightarrow> env" where
  "sample_env c =
     \<lparr>json_loads = sample_loads, getenv = no_getenv, boto3_client = c, uuid4 = ''session-1''\<rparr>"

definition fresh_state :: session_state where
  "fresh_state = \<lparr>client = None, session_id = None, messages = None, last_prompt = None\<rparr>"

definition running_state :: "client \<Rightarrow> session_state" where
  "running_state c =
     \<lparr>client = Some c, session_id = Some ''session-1'',
      messages = Some [\<lparr>role = ''human'', mtext = ''hello''\<rparr>, \<lparr>role = ''assistant'', mtext = ''hi''\<rparr>],
      last_prompt = Some None\<rparr>"

section \<open>Auxiliary facts\<close>

lemma and_then_ok:
  "and_then a b = (us, None) \<longleftrightarrow> (\<exists>ua ub. a = (ua, None) \<and> b = (ub, None) \<and> us = ua @ ub)"
  by (cases a; cases b) (auto simp: and_then_def split: option.splits)

lemma model_input_kinds:
  "trace_model_input jl (PDict kvs) = (us, None) \<Longrightarrow>
   map unit_kind us = (if map_of kvs ''modelInvocationInput'' \<noteq> None then [Some ModelInput] else [])"
  by (auto simp: trace_model_input_def try_get_def contains_def expander_def nothing_def
      split: if_splits)

lemma model_output_kinds:
  "trace_model_output jl (PDict kvs) = (us, None) \<Longrightarrow>
   map unit_kind us = (if map_of kvs ''modelInvocationOutput'' \<noteq> None then [Some ModelOutput] else [])"
  by (auto simp: trace_model_output_def try_get_def contains_def expander_def nothing_def
      split: if_splits sum.splits)

lemma rationale_kinds:
  "trace_rationale (PDict kvs) = (us, None) \<Longrightarrow>
   map unit_kind us = (if map_of kvs ''rationale'' \<noteq> None then [Some Rationale] else [])"
  by (auto simp: trace_rationale_def try_get_def contains_def expander_def nothing_def
      split: if_splits)

lemma invocation_kinds:
  "trace_invocation_input (PDict kvs) = (us, None) \<Longrightarrow>
   map unit_kind us = (if known_invocation kvs then [Some ToolInvocation] else [])"
  by (auto simp: trace_invocation_input_def try_get_def contains_def expander_def nothing_def
        known_invocation_def subscript_def bind_exn_def
      split: if_splits sum.splits option.splits)

lemma observation_kinds:
  "trace_observation (PDict kvs) = (us, None) \<Longrightarrow>
   map unit_kind us = (if known_observation kvs then [Some Observation] else [])"
  by (auto simp: trace_observation_def display_observation_details_def try_get_def contains_def
        expander_def nothing_def known_observation_def subscript_def
      split: if_splits sum.splits option.splits)

lemma handle_trace_event_sections:
  assumes "orchestration_trace event = Inr trace"
  shows "handle_trace_event jl event =
           and_then (trace_model_input jl trace)
          (and_then (trace_model_output jl trace)
          (and_then (trace_rationale trace)
          (and_then (trace_invocation_input trace)
                    (trace_observation trace))))"
  using assms
  by (auto simp: handle_trace_event_def orchestration_trace_def try_get_def bind_exn_def
        contains_def subscript_def
      split: sum.splits pyval.splits option.splits)

lemma answers_single:
  "answers [ev] = (case answer_of ev of None \<Rightarrow> [] | Some a \<Rightarrow> [a])"
  by (simp add: answers_def List.map_filter_simps split: option.splits)

lemma answers_Nil: "answers [] = []"
  by (simp add: answers_def List.map_filter_simps)

lemma answers_step:
  "answers (ev # evs) = (case answer_of ev of None \<Rightarrow> answers evs | Some a \<Rightarrow> a # answers evs)"
  by (simp add: answers_def List.map_filter_simps split: option.splits)

lemma handle_event_ok:
  assumes "handle_event jl ev ms = (ms', us, None)"
  shows "ms' = ms @ map assistant (answers [ev])
         \<and> length (answers [ev]) = length (filter has_chunk [ev])"
proof (cases "contains ev ''chunk''")
  case (Inl e)
  then have "answer_of ev = None" "\<not> has_chunk ev"
    by (simp_all add: answer_of_def has_chunk_def)
  moreover from assms Inl have "ms' = ms"
    by (simp add: handle_event_def Let_def split: sum.splits option.splits)
  ultimately show ?thesis by (simp add: answers_single)
next
  case (Inr b)
  show ?thesis
  proof (cases b)
    case False
    with Inr have "answer_of ev = None" "\<not> has_chunk ev"
      by (simp_all add: answer_of_def has_chunk_def)
    moreover from assms Inr False have "ms' = ms"
      by (simp add: handle_event_def Let_def split: sum.splits option.splits)
    ultimately show ?thesis by (simp add: answers_single)
  next
    case True
    with Inr have hc: "has_chunk ev" by (simp add: has_chunk_def)
    from assms Inr True obtain a where
      a: "chunk_text ev = Inr a" and ms': "ms' = ms @ [assistant a]"
      by (auto simp: handle_event_def Let_def assistant_def
          split: sum.splits option.splits)
    from a hc have "answer_of ev = Some a"
      by (simp add: answer_of_def)
    with ms' hc show ?thesis by (simp add: answers_single)
  qed
qed

lemma handle_event_error:
  "snd (snd (handle_event jl ev ms)) = event_error jl ev"
  by (auto simp: event_error_def handle_event_def Let_def split: sum.splits option.splits)

lemma handle_event_raises:
  "handle_event jl ev ms = (ms1, u, Some e) \<Longrightarrow> ms1 = ms"
  by (auto simp: handle_event_def Let_def split: sum.splits option.splits if_splits)

lemma handle_events_result:
  "handle_events jl evs ending ms = (ms', us, r) \<Longrightarrow>
   ms' = ms @ map assistant (answers (handled jl evs)) \<and> r = stream_outcome jl evs ending"
proof (induction evs arbitrary: ms us)
  case Nil
  then show ?case by (simp add: answers_Nil handled_def stream_outcome_def)
next
  case (Cons ev evs)
  obtain ms1 u1 r1 where step: "handle_event jl ev ms = (ms1, u1, r1)"
    by (cases "handle_event jl ev ms") auto
  have err: "event_error jl ev = r1"
    using handle_event_error [of jl ev ms] step by simp
  show ?case
  proof (cases r1)
    case (Some e)
    with Cons.prems step have "ms' = ms1" "r = Some e" by simp_all
    moreover from step Some have "ms1 = ms" by (simp add: handle_event_raises)
    ultimately show ?thesis
      using err Some by (simp add: handled_def stream_outcome_def answers_Nil)
  next
    case None
    with Cons.prems step obtain u2 where
      rest: "handle_events jl evs ending ms1 = (ms', u2, r)"
      by (auto split: prod.splits)
    from step None have "ms1 = ms @ map assistant (answers [ev])"
      using handle_event_ok by blast
    with Cons.IH [OF rest] err None show ?thesis
      by (simp add: handled_def stream_outcome_def answers_step answers_Nil answers_single
          split: option.splits)
  qed
qed

lemma answers_handled_count:
  "length (answers (handled jl evs)) = length (filter has_chunk (handled jl evs))"
proof (induction evs)
  case Nil
  then show ?case by (simp add: handled_def answers_Nil)
next
  case (Cons ev evs)
  show ?case
  proof (cases "event_error jl ev")
    case None
    then obtain a b where "handle_event jl ev [] = (a, b, None)"
      by (cases "handle_event jl ev []") (auto simp: event_error_def)
    from handle_event_ok [OF this]
    have "length (answers [ev]) = length (filter has_chunk [ev])" by simp
    with Cons None show ?thesis
      by (simp add: handled_def answers_step answers_Nil answers_single
          split: option.splits if_splits)
  next
    case (Some e)
    then show ?thesis by (simp add: handled_def answers_Nil)
  qed
qed

lemma stream_outcome_None:
  assumes "stream_outcome jl evs ending = None"
  shows "handled jl evs = evs"
proof (cases "dropWhile (\<lambda>ev. event_error jl ev = None) evs")
  case Nil
  then show ?thesis by (simp add: handled_def dropWhile_eq_Nil_conv)
next
  case (Cons ev rest)
  then have "event_error jl ev \<noteq> None"
    using hd_dropWhile [of "\<lambda>ev. event_error jl ev = None" evs] by auto
  with assms Cons show ?thesis by (simp add: stream_outcome_def)
qed

lemma handle_agent_response_result:
  assumes "handle_agent_response jl resp ms = (ms', us, r)"
  shows "ms' = ms @ map assistant (answers (handled jl (completion resp)))
       \<and> r = stream_outcome jl (completion resp) (stream_error resp)"
proof -
  from assms obtain u where
    "handle_events jl (completion resp) (stream_error resp) ms = (ms', u, r)"
    by (auto simp: handle_agent_response_def split: prod.splits)
  then show ?thesis by (rule handle_events_result)
qed

lemma try_block_result:
  "fst (try_block w c sid prompt ms) =
     (case invoke_bedrock_agent w c sid prompt of
        Inl e \<Rightarrow> ms
      | Inr resp \<Rightarrow> ms @ map assistant (answers (handled (json_loads w) (completion resp))))"
proof (cases "invoke_bedrock_agent w c sid prompt")
  case (Inl e)
  then show ?thesis by (simp add: try_block_def)
next
  case (Inr resp)
  obtain ms' us r where h: "handle_agent_response (json_loads w) resp ms = (ms', us, r)"
    by (cases "handle_agent_response (json_loads w) resp ms") auto
  from handle_agent_response_result [OF h] h Inr show ?thesis
    by (simp add: try_block_def)
qed

lemma main_unfold:
  assumes "initialize_session w st = (st1, c, sid, ms)" and "prompt \<noteq> []"
      and "try_block w c sid prompt (ms @ [\<lparr>role = ''human'', mtext = prompt\<rparr>]) = (ms2, us, r)"
  shows "main w st (Some prompt) =
           \<lparr>state = st1\<lparr>messages := Some ms2\<rparr>,
            screen = display_chat_history ms @ [St_chat_message ''user'' [St_markdown (PStr prompt)]] @ us
                     @ fst (case r of None \<Rightarrow> nothing | Some e \<Rightarrow> except_clause e),
            invoked = [build_request w sid prompt],
            raised = snd (case r of None \<Rightarrow> nothing | Some e \<Rightarrow> except_clause e)\<rparr>"
  using assms by (simp add: main_def Let_def)

lemma initialize_fresh:
  "initialize_session (sample_env c) fresh_state =
     (\<lparr>client = Some c, session_id = Some ''session-1'', messages = Some [],
       last_prompt = Some None\<rparr>, c, ''session-1'', [])"
  by (simp add: initialize_session_def sample_env_def fresh_state_def Let_def)

lemma initialize_running:
  "initialize_session (sample_env c') (running_state c) =
     (running_state c, c, ''session-1'',
      [\<lparr>role = ''human'', mtext = ''hello''\<rparr>, \<lparr>role = ''assistant'', mtext = ''hi''\<rparr>])"
  by (simp add: initialize_session_def running_state_def Let_def)

lemma try_block_failing:
  "try_block w (failing_client e) sid prompt ms = (ms, [], Some e)"
  by (simp add: try_block_def invoke_bedrock_agent_def failing_client_def)

section \<open>The dispatch on a raw event\<close>

text \<open>
  Claim C1 says that a top-level \<open>chunk\<close> field is tested before a top-level \<open>trace\<close>
  field and that the first match wins, so that an event with both fields is an answer chunk
  only. The loop body has two separate \<open>if\<close> statements, the one for \<open>trace\<close> first:
  the event below, which carries both fields, has its rationale rendered and then its answer
  written.
\<close>

theorem handle_event_both_fields_counterexample:
  "fst (snd (handle_event sample_loads both_event [])) =
     [St_expander NextActionDecided True [St_write (PStr ''Use tool X'')],
      St_write (PStr ''Hello'')]"
  by code_simp

text \<open>
  Claim C1, as the code has it: an event is first rendered as a trace if it has a top-level
  \<open>trace\<close> field and then, independently, taken as an answer chunk if it has a top-level
  \<open>chunk\<close> field. When the rendering and the decoding raise nothing, what is shown is the
  units of the trace followed by the answer, and the transcript grows by the answer; each
  part is empty when its field is absent.
\<close>

theorem handle_event_trace_then_chunk:
  assumes "contains event ''trace'' = Inr with_trace"
      and "contains event ''chunk'' = Inr with_chunk"
      and "(if with_trace then handle_trace_event jl event else nothing) = (us, None)"
      and "with_chunk \<longrightarrow> chunk_text event = Inr answer"
  shows "handle_event jl event ms =
           (ms @ (if with_chunk then [assistant answer] else []),
            us @ (if with_chunk then [St_write (PStr answer)] else []), None)"
  using assms
  by (auto simp: handle_event_def assistant_def nothing_def Let_def)

theorem handle_event_trace_then_chunk_witness:
  "handle_event sample_loads both_event [] =
     ([assistant ''Hello''],
      [St_expander NextActionDecided True [St_write (PStr ''Use tool X'')],
       St_write (PStr ''Hello'')], None)"
proof -
  have t: "contains both_event ''trace'' = Inr True" by code_simp
  have c: "contains both_event ''chunk'' = Inr True" by code_simp
  have r: "(if True then handle_trace_event sample_loads both_event else nothing) =
             ([St_expander NextActionDecided True [St_write (PStr ''Use tool X'')]], None)"
    by code_simp
  have d: "True \<longrightarrow> chunk_text both_event = Inr ''Hello''" by code_simp
  show ?thesis using handle_event_trace_then_chunk [OF t c r d, of "[]"] by simp
qed

section \<open>Absent optional sub-fields of a tool invocation\<close>

text \<open>
  Claim C2 says that no event of the documented shape makes classification and rendering
  raise. The sub-field \<open>agentCollaboratorInvocationInput\<close> of \<open>invocationInput\<close> is
  optional in that shape, and line 114 subscripts it: on the event below the loop body
  raises \<open>KeyError\<close>. The observation branch reads its optional sub-fields with \<open>.get\<close>
  and a default; the invocation branch does not.
\<close>

theorem handle_event_absent_optional_raises:
  "handle_event sample_loads
     (orchestration_event [invocation_field [(''invocationType'', PStr ''AGENT_COLLABORATOR'')]]) []
   = ([], [], Some (KeyError ''agentCollaboratorInvocationInput''))"
  by code_simp

text \<open>
  Claim C3 says that a collaborator invocation without a collaborator name is rendered under
  a default name. Line 114 subscripts \<open>agentCollaboratorName\<close>: on the event below, whose
  collaborator input has its text and no name, \<open>handle_trace_event\<close> raises \<open>KeyError\<close>
  and shows nothing.
\<close>

theorem handle_trace_event_missing_name_raises:
  "handle_trace_event sample_loads
     (orchestration_event
        [invocation_field
           [(''invocationType'', PStr ''AGENT_COLLABORATOR''),
            (''agentCollaboratorInvocationInput'',
             PDict [(''input'', PDict [(''text'', PStr ''compare the options'')])])]])
   = ([], Some (KeyError ''agentCollaboratorName''))"
  by code_simp

section \<open>The units of one trace event\<close>

text \<open>
  Claim C4 says that a trace event with N present orchestration sub-fields yields exactly N
  units. An \<open>invocationInput\<close> whose type is none of the three the code dispatches on is
  present and yields no unit.
\<close>

theorem handle_trace_event_unknown_type_counterexample:
  "handle_trace_event sample_loads
     (orchestration_event
        [invocation_field [(''invocationType'', PStr ''ACTION_GROUP_CODE_INTERPRETER'')]])
   = ([], None)
   \<and> present_subfields
        [invocation_field [(''invocationType'', PStr ''ACTION_GROUP_CODE_INTERPRETER'')]]
     = [''invocationInput'']"
  by code_simp

text \<open>
  Claim C4, as the code has it: when the rendering of a trace event raises nothing, its
  units are, in the fixed order model input, model output, rationale, tool invocation,
  observation, one for each of the first three sub-fields that is present, one for the tool
  invocation if it is present with one of the three types the code dispatches on, and one
  for the observation if it is present with one of the two types the code dispatches on.
\<close>

theorem handle_trace_event_kinds:
  assumes "orchestration_trace event = Inr (PDict kvs)"
      and "handle_trace_event jl event = (us, None)"
  shows "map unit_kind us = map Some (rendered_kinds kvs)"
proof -
  from assms obtain u1 u2 u3 u4 u5 where
    s: "trace_model_input jl (PDict kvs) = (u1, None)"
       "trace_model_output jl (PDict kvs) = (u2, None)"
       "trace_rationale (PDict kvs) = (u3, None)"
       "trace_invocation_input (PDict kvs) = (u4, None)"
       "trace_observation (PDict kvs) = (u5, None)"
    and us: "us = u1 @ u2 @ u3 @ u4 @ u5"
    unfolding handle_trace_event_sections [OF assms(1)] and_then_ok by blast
  show ?thesis
    unfolding us rendered_kinds_def
    by (simp add: model_input_kinds [OF s(1)] model_output_kinds [OF s(2)]
        rationale_kinds [OF s(3)] invocation_kinds [OF s(4)] observation_kinds [OF s(5)])
qed

theorem handle_trace_event_kinds_witness:
  "map unit_kind
     (fst (handle_trace_event sample_loads
        (orchestration_event
           [observation_field [(''type'', PStr ''KNOWLEDGE_BASE'')],
            invocation_field [(''invocationType'', PStr ''ACTION_GROUP_CODE_INTERPRETER'')],
            rationale_field])))
   = [Some Rationale, Some Observation]"
proof -
  let ?kvs = "[observation_field [(''type'', PStr ''KNOWLEDGE_BASE'')],
               invocation_field [(''invocationType'', PStr ''ACTION_GROUP_CODE_INTERPRETER'')],
               rationale_field]"
  have t: "orchestration_trace (orchestration_event ?kvs) = Inr (PDict ?kvs)"
    by code_simp
  have r: "handle_trace_event sample_loads (orchestration_event ?kvs) =
             ([St_expander NextActionDecided True [St_write (PStr ''Use tool X'')],
               St_expander KnowledgeBaseSearched False [St_info NoDocumentsFound]], None)"
    by code_simp
  have k: "rendered_kinds ?kvs = [Rationale, Observation]"
    by code_simp
  show ?thesis using handle_trace_event_kinds [OF t r] by (simp add: r k)
qed

section \<open>The transcript after a stream\<close>

text \<open>
  Claim C5 says that every stream with k answer chunks appends exactly k assistant entries.
  The loop has no handler of its own: an event that raises ends the consumption, and the
  chunks behind it are never reached. Below, the bytes of the first chunk are not UTF-8, the
  second chunk is well formed, and nothing is appended.
\<close>

theorem handle_agent_response_abort_counterexample:
  "handle_agent_response sample_loads
     \<lparr>completion = [chunk_event [CHR 0xFF], chunk_event ''Hello''], stream_error = None\<rparr> []
   = ([], [St_chat_message ''assistant'' []], Some UnicodeDecodeError)"
  by code_simp

text \<open>
  Claim C5, as the code has it: the events of a stream are handled in order up to the first
  one whose handling raises; consumption stops there with that exception, and the chunks
  behind it are not appended. The transcript grows by exactly one assistant entry for each
  handled event that carries a chunk, with that chunk's decoded text, in stream order and
  without coalescing. When the consumption ends without an exception, every event of the
  stream was handled, so the new entries are one per event with a chunk.
\<close>

theorem handle_agent_response_appends:
  assumes "handle_agent_response jl resp ms = (ms', us, r)"
  shows "ms' = ms @ map assistant (answers (handled jl (completion resp)))
       \<and> length (answers (handled jl (completion resp)))
           = length (filter has_chunk (handled jl (completion resp)))
       \<and> r = stream_outcome jl (completion resp) (stream_error resp)
       \<and> (r = None \<longrightarrow> handled jl (completion resp) = completion resp)"
  using handle_agent_response_result [OF assms]
    answers_handled_count [of jl "completion resp"]
    stream_outcome_None [of jl "completion resp" "stream_error resp"]
  by simp

theorem handle_agent_response_appends_witness:
  "[\<lparr>role = ''human'', mtext = ''hello''\<rparr>, assistant ''Hel'', assistant ''lo'']
     = [\<lparr>role = ''human'', mtext = ''hello''\<rparr>]
       @ map assistant
           (answers [chunk_event ''Hel'', orchestration_event [rationale_field], chunk_event ''lo''])
   \<and> handled sample_loads
        [chunk_event ''Hel'', orchestration_event [rationale_field], chunk_event ''lo'']
     = [chunk_event ''Hel'', orchestration_event [rationale_field], chunk_event ''lo'']
   \<and> [\<lparr>role = ''human'', mtext = ''hello''\<rparr>, assistant ''Hel'']
     = [\<lparr>role = ''human'', mtext = ''hello''\<rparr>]
       @ map assistant
           (answers (handled sample_loads
              [chunk_event ''Hel'', chunk_event [CHR 0xFF], chunk_event ''lo'']))
   \<and> Some UnicodeDecodeError
     = stream_outcome sample_loads
         [chunk_event ''Hel'', chunk_event [CHR 0xFF], chunk_event ''lo''] None"
proof -
  let ?good = "[chunk_event ''Hel'', orchestration_event [rationale_field], chunk_event ''lo'']"
  let ?bad = "[chunk_event ''Hel'', chunk_event [CHR 0xFF], chunk_event ''lo'']"
  have g: "handle_agent_response sample_loads \<lparr>completion = ?good, stream_error = None\<rparr>
             [\<lparr>role = ''human'', mtext = ''hello''\<rparr>]
           = ([\<lparr>role = ''human'', mtext = ''hello''\<rparr>, assistant ''Hel'', assistant ''lo''],
              [St_chat_message ''assistant''
                 [St_write (PStr ''Hel''),
                  St_expander NextActionDecided True [St_write (PStr ''Use tool X'')],
                  St_write (PStr ''lo'')]],
              None)"
    by code_simp
  have b: "handle_agent_response sample_loads \<lparr>completion = ?bad, stream_error = None\<rparr>
             [\<lparr>role = ''human'', mtext = ''hello''\<rparr>]
           = ([\<lparr>role = ''human'', mtext = ''hello''\<rparr>, assistant ''Hel''],
              [St_chat_message ''assistant'' [St_write (PStr ''Hel'')]],
              Some UnicodeDecodeError)"
    by code_simp
  show ?thesis
    using handle_agent_response_appends [OF g] handle_agent_response_appends [OF b]
    by simp
qed

section \<open>Failures of the invocation\<close>

text \<open>
  Claim C6 says that every failure whose string contains \<open>throttlingException\<close> is
  classified as throttled. The test for \<open>dependencyFailedException\<close> comes first, so a
  client error whose string holds both tokens gets the dependency message; and the
  \<open>except\<close> clause names two classes only, so an error of another class is raised again
  whatever its string.
\<close>

theorem main_classification_counterexample:
  "screen (main (sample_env (failing_client
       (ClientError ''dependencyFailedException: throttlingException''))) fresh_state (Some ''hi''))
     = [St_title, St_text, St_chat_message ''user'' [St_markdown (PStr ''hi'')],
        St_error DependencyFailedMessage]
   \<and> is_substring ''throttlingException'' ''dependencyFailedException: throttlingException''
   \<and> raised (main (sample_env (failing_client (OtherError ''throttlingException'')))
        fresh_state (Some ''hi''))
     = Some (OtherError ''throttlingException'')"
  by code_simp

text \<open>
  Claim C6, as the code has it: when the \<open>try\<close> block raises an \<open>EventStreamError\<close> or a
  \<open>ClientError\<close>, its string is tested for \<open>dependencyFailedException\<close> first, which
  gives the dependency message, then for \<open>throttlingException\<close>, which gives the
  throttling message; in both cases \<open>main\<close> ends normally. With neither token the same
  exception leaves \<open>main\<close> and no message is shown.
\<close>

theorem main_classifies_transport_errors:
  assumes "initialize_session w st = (st1, c, sid, ms)" and "prompt \<noteq> []"
      and "try_block w c sid prompt (ms @ [\<lparr>role = ''human'', mtext = prompt\<rparr>]) = (ms2, us, Some e)"
      and "e = EventStreamError s \<or> e = ClientError s"
  shows "raised (main w st (Some prompt)) =
           (if is_substring ''dependencyFailedException'' s then None
            else if is_substring ''throttlingException'' s then None
            else Some e)
       \<and> screen (main w st (Some prompt)) =
           display_chat_history ms @ [St_chat_message ''user'' [St_markdown (PStr prompt)]] @ us
           @ (if is_substring ''dependencyFailedException'' s then [St_error DependencyFailedMessage]
              else if is_substring ''throttlingException'' s then [St_error ThrottlingMessage]
              else [])"
  using assms(4)
  by (auto simp: main_unfold [OF assms(1-3)] except_clause_def show_error_popup_def emit_def)

theorem main_classifies_transport_errors_witness:
  "raised (main (sample_env (failing_client (EventStreamError ''(throttlingException) slow down'')))
      fresh_state (Some ''hi'')) = None
   \<and> screen (main (sample_env (failing_client (EventStreamError ''(throttlingException) slow down'')))
      fresh_state (Some ''hi''))
     = [St_title, St_text, St_chat_message ''user'' [St_markdown (PStr ''hi'')],
        St_error ThrottlingMessage]"
proof -
  let ?e = "EventStreamError ''(throttlingException) slow down''"
  have p: "''hi'' \<noteq> []" by simp
  have k: "?e = EventStreamError ''(throttlingException) slow down''
           \<or> ?e = ClientError ''(throttlingException) slow down''" by simp
  have d: "\<not> is_substring ''dependencyFailedException'' ''(throttlingException) slow down''"
    by code_simp
  have t: "is_substring ''throttlingException'' ''(throttlingException) slow down''"
    by code_simp
  show ?thesis
    using main_classifies_transport_errors [OF initialize_fresh p try_block_failing k]
    by (simp add: d t display_chat_history_def)
qed

text \<open>
  Claim C8 says that after any failure that the \<open>except\<close> clause classifies or raises
  again, the transcript holds the user's entry and no new assistant entry. The \<open>try\<close>
  block also covers the consumption of the stream: below, the stream yields one chunk and
  then breaks off with an \<open>EventStreamError\<close>; the error is classified, and the entry of
  the chunk is in the transcript.
\<close>

theorem main_stream_breaks_counterexample:
  "messages (state (main (sample_env (breaking_client [chunk_event ''Hel'']
       (EventStreamError ''throttlingException''))) fresh_state (Some ''hi'')))
     = Some [\<lparr>role = ''human'', mtext = ''hi''\<rparr>, \<lparr>role = ''assistant'', mtext = ''Hel''\<rparr>]
   \<and> screen (main (sample_env (breaking_client [chunk_event ''Hel'']
       (EventStreamError ''throttlingException''))) fresh_state (Some ''hi''))
     = [St_title, St_text, St_chat_message ''user'' [St_markdown (PStr ''hi'')],
        St_chat_message ''assistant'' [St_write (PStr ''Hel'')], St_error ThrottlingMessage]"
  by code_simp

text \<open>
  Claim C8, as the code has it: whatever happens in the \<open>try\<close> block, and whether its
  exception is then classified or raised again, nothing is rolled back. When the invocation
  itself raises, the transcript after \<open>main\<close> is the transcript before it followed by the
  user's entry, with no assistant entry added. When the invocation returns a stream, the
  transcript is the transcript before, the user's entry, and one assistant entry for each
  chunk of the events handled before the first one that raises: the entries of the chunks
  consumed before a failure stay.
\<close>

theorem main_keeps_user_entry:
  assumes "initialize_session w st = (st1, c, sid, ms)" and "prompt \<noteq> []"
  shows "(invoke_bedrock_agent w c sid prompt = Inl e \<longrightarrow>
            messages (state (main w st (Some prompt)))
              = Some (ms @ [\<lparr>role = ''human'', mtext = prompt\<rparr>]))
       \<and> (invoke_bedrock_agent w c sid prompt = Inr resp \<longrightarrow>
            messages (state (main w st (Some prompt)))
              = Some (ms @ [\<lparr>role = ''human'', mtext = prompt\<rparr>]
                      @ map assistant (answers (handled (json_loads w) (completion resp)))))"
proof -
  obtain ms2 us r where
    t: "try_block w c sid prompt (ms @ [\<lparr>role = ''human'', mtext = prompt\<rparr>]) = (ms2, us, r)"
    by (cases "try_block w c sid prompt (ms @ [\<lparr>role = ''human'', mtext = prompt\<rparr>])") auto
  have m: "messages (state (main w st (Some prompt))) = Some ms2"
    using main_unfold [OF assms t] by simp
  from try_block_result [of w c sid prompt "ms @ [\<lparr>role = ''human'', mtext = prompt\<rparr>]"] t
  have "ms2 = (case invoke_bedrock_agent w c sid prompt of
                 Inl e \<Rightarrow> ms @ [\<lparr>role = ''human'', mtext = prompt\<rparr>]
               | Inr resp \<Rightarrow>
                   (ms @ [\<lparr>role = ''human'', mtext = prompt\<rparr>])
                   @ map assistant (answers (handled (json_loads w) (completion resp))))"
    by simp
  with m show ?thesis by auto
qed

theorem main_keeps_user_entry_witness:
  "messages (state (main (sample_env (failing_client (ClientError ''throttlingException'')))
      (running_state (failing_client (ClientError ''throttlingException''))) (Some ''and then?'')))
   = Some [\<lparr>role = ''human'', mtext = ''hello''\<rparr>, \<lparr>role = ''assistant'', mtext = ''hi''\<rparr>,
           \<lparr>role = ''human'', mtext = ''and then?''\<rparr>]
   \<and> messages (state (main
        (sample_env (breaking_client [chunk_event ''Hel'', chunk_event ''lo'']
           (EventStreamError ''dependencyFailedException'')))
        (running_state (breaking_client [chunk_event ''Hel'', chunk_event ''lo'']
           (EventStreamError ''dependencyFailedException''))) (Some ''and then?'')))
   = Some [\<lparr>role = ''human'', mtext = ''hello''\<rparr>, \<lparr>role = ''assistant'', mtext = ''hi''\<rparr>,
           \<lparr>role = ''human'', mtext = ''and then?''\<rparr>, assistant ''Hel'', assistant ''lo'']"
proof -
  let ?f = "failing_client (ClientError ''throttlingException'')"
  let ?b = "breaking_client [chunk_event ''Hel'', chunk_event ''lo'']
              (EventStreamError ''dependencyFailedException'')"
  let ?resp = "\<lparr>completion = [chunk_event ''Hel'', chunk_event ''lo''],
                stream_error = Some (EventStreamError ''dependencyFailedException'')\<rparr>"
  have p: "''and then?'' \<noteq> []" by simp
  have i: "invoke_bedrock_agent (sample_env ?f) ?f ''session-1'' ''and then?''
           = Inl (ClientError ''throttlingException'')"
    by (simp add: invoke_bedrock_agent_def failing_client_def)
  have j: "invoke_bedrock_agent (sample_env ?b) ?b ''session-1'' ''and then?'' = Inr ?resp"
    by (simp add: invoke_bedrock_agent_def breaking_client_def)
  have a: "answers (handled (json_loads (sample_env ?b)) (completion ?resp)) = [''Hel'', ''lo'']"
    by code_simp
  show ?thesis
    using main_keeps_user_entry
            [OF initialize_running p, where e = "ClientError ''throttlingException''"] i
          main_keeps_user_entry [OF initialize_running p, where resp = ?resp] j a
    by simp
qed

text \<open>
  Claim C9: an exception raised in the \<open>try\<close> block that is neither an
  \<open>EventStreamError\<close> nor a \<open>ClientError\<close> leaves \<open>main\<close> unchanged and no error
  message is shown, whatever its string holds.
\<close>

theorem main_other_errors_propagate:
  assumes "initialize_session w st = (st1, c, sid, ms)" and "prompt \<noteq> []"
      and "try_block w c sid prompt (ms @ [\<lparr>role = ''human'', mtext = prompt\<rparr>]) = (ms2, us, Some e)"
      and "\<not> is_transport e"
  shows "raised (main w st (Some prompt)) = Some e
       \<and> screen (main w st (Some prompt)) =
           display_chat_history ms @ [St_chat_message ''user'' [St_markdown (PStr prompt)]] @ us"
  using assms(4)
  by (cases e) (auto simp: main_unfold [OF assms(1-3)] except_clause_def is_transport_def)

theorem main_other_errors_propagate_witness:
  "raised (main (sample_env (failing_client (OtherError ''dependencyFailedException throttlingException'')))
      fresh_state (Some ''hi''))
     = Some (OtherError ''dependencyFailedException throttlingException'')
   \<and> screen (main (sample_env (failing_client (OtherError ''dependencyFailedException throttlingException'')))
      fresh_state (Some ''hi''))
     = [St_title, St_text, St_chat_message ''user'' [St_markdown (PStr ''hi'')]]"
proof -
  have p: "''hi'' \<noteq> []" by simp
  have k: "\<not> is_transport (OtherError ''dependencyFailedException throttlingException'')"
    by (simp add: is_transport_def)
  show ?thesis
    using main_other_errors_propagate [OF initialize_fresh p try_block_failing k]
    by (simp add: display_chat_history_def)
qed

text \<open>
  Claim C10: when \<open>st.chat_input\<close> returns nothing or the empty string, \<open>main\<close> sends no
  request to the agent, raises nothing and leaves the session as \<open>initialize_session\<close>
  made it, with the same transcript and the same session identifier; a session that was
  already initialised is unchanged.
\<close>

theorem main_empty_prompt:
  assumes "chat_input = None \<or> chat_input = Some []"
      and "initialize_session w st = (st1, c, sid, ms)"
  shows "state (main w st chat_input) = st1 \<and> invoked (main w st chat_input) = []
       \<and> raised (main w st chat_input) = None
       \<and> messages (state (main w st chat_input)) = Some ms
       \<and> session_id (state (main w st chat_input)) = Some sid
       \<and> (initialised st \<longrightarrow> state (main w st chat_input) = st)"
  using assms
  by (auto simp: main_def initialize_session_def initialised_def Let_def)

theorem main_empty_prompt_witness:
  "state (main (sample_env (replying_client [chunk_event ''Hello'']))
      (running_state (replying_client [chunk_event ''Hello''])) (Some []))
     = running_state (replying_client [chunk_event ''Hello''])
   \<and> invoked (main (sample_env (replying_client [chunk_event ''Hello'']))
      (running_state (replying_client [chunk_event ''Hello''])) (Some [])) = []
   \<and> messages (state (main (sample_env (replying_client [chunk_event ''Hello'']))
      (running_state (replying_client [chunk_event ''Hello''])) (Some [])))
     = Some [\<lparr>role = ''human'', mtext = ''hello''\<rparr>, \<lparr>role = ''assistant'', mtext = ''hi''\<rparr>]"
proof -
  have e: "Some [] = None \<or> Some ([] :: string) = Some []" by simp
  have i: "initialised (running_state (replying_client [chunk_event ''Hello'']))"
    by (simp add: initialised_def running_state_def)
  have m: "messages (running_state (replying_client [chunk_event ''Hello'']))
             = Some [\<lparr>role = ''human'', mtext = ''hello''\<rparr>, \<lparr>role = ''assistant'', mtext = ''hi''\<rparr>]"
    by (simp add: running_state_def)
  show ?thesis
    using main_empty_prompt
      [OF e initialize_running
         [of "replying_client [chunk_event ''Hello'']" "replying_client [chunk_event ''Hello'']"]]
      i m
    by simp
qed

section \<open>The body of a model output\<close>

text \<open>
  Claim C7: for a model output whose payload is \<open>rawResponse.content\<close>, the unit is the
  collapsed expander of the model output, and its body is the text of the first content
  element of the parsed payload when that text is a non-empty string, the first content
  element itself when that text is the empty string, and the payload as it came when
  \<open>json.loads\<close> rejects it.
\<close>

theorem trace_model_output_body:
  assumes "contains trace ''modelInvocationOutput'' = Inr True"
      and "bind_exn (bind_exn (subscript trace ''modelInvocationOutput'')
              (\<lambda>m. subscript m ''rawResponse'')) (\<lambda>r. subscript r ''content'') = Inr payload"
  shows "(first_content jl payload = Inr el \<and> subscript el ''text'' = Inr (PStr t) \<and> t \<noteq> [] \<longrightarrow>
            trace_model_output jl trace
              = ([St_expander ThoughtComplete False [St_write (PStr t)]], None))
       \<and> (first_content jl payload = Inr el \<and> subscript el ''text'' = Inr (PStr []) \<longrightarrow>
            trace_model_output jl trace
              = ([St_expander ThoughtComplete False [St_write el]], None))
       \<and> (jl payload = Inl e \<longrightarrow>
            trace_model_output jl trace
              = ([St_expander ThoughtComplete False [St_write payload]], None))"
  using assms
  by (auto simp: trace_model_output_def try_get_def expander_def emit_def first_content_def
        bind_exn_def)

theorem trace_model_output_body_witness:
  \<open>trace_model_output sample_loads (PDict [model_output_field (PStr ''{"content": [{"text": "done"}]}'')])
     = ([St_expander ThoughtComplete False [St_write (PStr ''done'')]], None)
   \<and> trace_model_output sample_loads (PDict [model_output_field (PStr ''{"content": [{"text": ""}]}'')])
     = ([St_expander ThoughtComplete False [St_write (PDict [(''text'', PStr [])])]], None)
   \<and> trace_model_output sample_loads (PDict [model_output_field (PStr ''not json'')])
     = ([St_expander ThoughtComplete False [St_write (PStr ''not json'')]], None)\<close>
proof -
  let ?full = \<open>PStr ''{"content": [{"text": "done"}]}''\<close>
  let ?empty = \<open>PStr ''{"content": [{"text": ""}]}''\<close>
  let ?bad = "PStr ''not json''"
  have c: "contains (PDict [model_output_field p]) ''modelInvocationOutput'' = Inr True" for p
    by (simp add: contains_def model_output_field_def)
  have s: "bind_exn (bind_exn (subscript (PDict [model_output_field p]) ''modelInvocationOutput'')
             (\<lambda>m. subscript m ''rawResponse'')) (\<lambda>r. subscript r ''content'') = Inr p" for p
    by (simp add: subscript_def bind_exn_def model_output_field_def)
  have f1: "first_content sample_loads ?full = Inr (PDict [(''text'', PStr ''done'')])"
    by code_simp
  have t1: "subscript (PDict [(''text'', PStr ''done'')]) ''text'' = Inr (PStr ''done'')"
    by code_simp
  have f2: "first_content sample_loads ?empty = Inr (PDict [(''text'', PStr [])])"
    by code_simp
  have t2: "subscript (PDict [(''text'', PStr [])]) ''text'' = Inr (PStr [])"
    by code_simp
  have f3: "sample_loads ?bad = Inl (OtherError ''JSONDecodeError'')"
    by code_simp
  have "trace_model_output sample_loads (PDict [model_output_field ?full])
          = ([St_expander ThoughtComplete False [St_write (PStr ''done'')]], None)"
    using trace_model_output_body [OF c s, of sample_loads ?full "PDict [(''text'', PStr ''done'')]" "''done''"]
      f1 t1 by simp
  moreover have "trace_model_output sample_loads (PDict [model_output_field ?empty])
          = ([St_expander ThoughtComplete False [St_write (PDict [(''text'', PStr [])])]], None)"
    using trace_model_output_body [OF c s, of sample_loads ?empty "PDict [(''text'', PStr [])]"]
      f2 t2 by simp
  moreover have "trace_model_output sample_loads (PDict [model_output_field ?bad])
          = ([St_expander ThoughtComplete False [St_write ?bad]], None)"
    using trace_model_output_body [OF c s, of sample_loads ?bad _ _ "OtherError ''JSONDecodeError''"]
      f3 by simp
  ultimately show ?thesis by simp
qed

end
